theory Spec2Isabelle
  imports Complex_Main
begin

section \<open>Numbers\<close>

text \<open>
  The TypeScript sources compute with \<^verbatim>\<open>number\<close>. The embedding reads a
  \<^verbatim>\<open>number\<close> as a real and a count (\<^verbatim>\<open>.length\<close>) as a natural number;
  decimal constants such as \<^verbatim>\<open>0.3\<close> are the exact fractions.
  \<^verbatim>\<open>Math.round\<close> rounds to the nearest integer, a half going up.
\<close>

definition js_round :: "real \<Rightarrow> real" where
  "js_round x = of_int (floor (x + 1 / 2))"

section \<open>lib/pulse/types.ts\<close>

datatype VenueDataSource = SPREE | COMMUNITY | GOOGLE | ESTIMATED

datatype checkInTrend = Surging | Increasing | Stable | Decreasing

datatype vibe = Dead | Chill | Busy | Packed

datatype relativeLevel = Low | BelowAverage | Average | AboveAverage | High

datatype trend = TrendDecreasing | TrendStable | TrendIncreasing

record PulseBreakdown =
  checkIns :: "real option"
  googleBusy :: "real option"
  communityReports :: "nat option"
  waitTime :: "real option"
  vibeScore :: "real option"

record PulseData =
  pulse_value :: real
  confidence :: real
  dataSource :: VenueDataSource
  lastUpdated :: int
  breakdown :: "PulseBreakdown option"

record VenueMetrics =
  venueId :: nat
  activeCheckIns :: real
  checkInsLast30Min :: real
  checkInsLastHour :: real
  checkInTrend :: checkInTrend
  reportedWaitTime :: "real option"
  recentRatings :: real
  recentSentiment :: real
  vibePhotosCount :: real
  dayOfWeek :: real
  hourOfDay :: real
  isSpecialEvent :: bool

section \<open>lib/pulse/calculations.ts: PulseCalculator\<close>

definition calculateActivityScore :: "real \<Rightarrow> real" where
  "calculateActivityScore n =
     (if n \<ge> 100 then 9
      else if n \<ge> 75 then 85 / 10
      else if n \<ge> 50 then 8
      else if n \<ge> 30 then 7
      else if n \<ge> 20 then 65 / 10
      else if n \<ge> 15 then 6
      else if n \<ge> 10 then 55 / 10
      else if n \<ge> 5 then 5
      else if n \<ge> 2 then 45 / 10
      else if n > 0 then 4
      else 3)"

fun calculateMomentumBoost :: "checkInTrend \<Rightarrow> real" where
  "calculateMomentumBoost Surging = 1"
| "calculateMomentumBoost Increasing = 5 / 10"
| "calculateMomentumBoost Stable = 0"
| "calculateMomentumBoost Decreasing = - (5 / 10)"

definition calculateVibeBoost :: "real \<Rightarrow> real \<Rightarrow> real" where
  "calculateVibeBoost sentiment photoCount =
     (let boost = 0;
          boost = (if sentiment > 7 / 10 then boost + 5 / 10
                   else if sentiment > 3 / 10 then boost + 3 / 10
                   else if sentiment > 0 then boost + 1 / 10
                   else boost);
          boost = (if photoCount \<ge> 10 then boost + 5 / 10
                   else if photoCount \<ge> 5 then boost + 3 / 10
                   else if photoCount \<ge> 2 then boost + 2 / 10
                   else if photoCount > 0 then boost + 1 / 10
                   else boost)
      in min 1 boost)"

text \<open>\<^verbatim>\<open>!waitTime\<close> holds for \<^verbatim>\<open>null\<close> and for \<^verbatim>\<open>0\<close>.\<close>

fun calculateWaitTimeBoost :: "real option \<Rightarrow> real" where
  "calculateWaitTimeBoost None = 0"
| "calculateWaitTimeBoost (Some w) =
     (if w = 0 then 0
      else if w \<ge> 45 then 2
      else if w \<ge> 30 then 15 / 10
      else if w \<ge> 20 then 1
      else if w \<ge> 10 then 7 / 10
      else if w \<ge> 5 then 5 / 10
      else 0)"

definition timeModifier :: "real \<Rightarrow> real \<Rightarrow> real" where
  "timeModifier hour day =
     (if (day \<ge> 4 \<or> day = 0) \<and> (hour \<ge> 22 \<or> hour \<le> 2) then 115 / 100
      else if hour \<ge> 20 \<or> hour \<le> 0 then 11 / 10
      else if day \<ge> 1 \<and> day \<le> 5 \<and> hour \<ge> 17 \<and> hour \<le> 19 then 105 / 100
      else if day \<ge> 1 \<and> day \<le> 3 \<and> (hour \<ge> 23 \<or> hour \<le> 1) then 9 / 10
      else if hour \<ge> 6 \<and> hour < 17 then 7 / 10
      else if hour \<ge> 3 \<and> hour < 6 then 5 / 10
      else 1)"

definition applyTimeModifiers :: "real \<Rightarrow> real \<Rightarrow> real \<Rightarrow> real" where
  "applyTimeModifiers basePulse hour day = basePulse * timeModifier hour day"

text \<open>The function returns an object with the one field \<^verbatim>\<open>value\<close>; the model returns
  that field.\<close>

definition calculateFromMetrics :: "VenueMetrics \<Rightarrow> real" where
  "calculateFromMetrics metrics =
     (let pulse = calculateActivityScore (activeCheckIns metrics);
          pulse = pulse + calculateMomentumBoost (checkInTrend metrics);
          pulse = pulse + calculateVibeBoost (recentSentiment metrics) (vibePhotosCount metrics);
          pulse = pulse + calculateWaitTimeBoost (reportedWaitTime metrics);
          pulse = applyTimeModifiers pulse (hourOfDay metrics) (dayOfWeek metrics);
          pulse = (if isSpecialEvent metrics then pulse * (12 / 10) else pulse);
          finalPulse = min 10 (max 0 pulse)
      in js_round (finalPulse * 10) / 10)"

definition convertGoogleToSpree :: "real \<Rightarrow> real" where
  "convertGoogleToSpree g =
     (if g \<ge> 90 then 95 / 10
      else if g \<ge> 80 then 85 / 10 + (g - 80) / 20
      else if g \<ge> 70 then 75 / 10 + (g - 70) / 20
      else if g \<ge> 60 then 7 + (g - 60) / 40
      else if g \<ge> 50 then 65 / 10 + (g - 50) / 40
      else if g \<ge> 40 then 6 + (g - 40) / 40
      else if g \<ge> 30 then 55 / 10 + (g - 30) / 40
      else if g \<ge> 20 then 5 + (g - 20) / 40
      else if g \<ge> 10 then 4 + (g - 10) / 20
      else if g > 0 then 3 + g / 10
      else 3)"

datatype confidenceSource = SrcSpree | SrcCommunity | SrcGoogle

fun sourceConfidence :: "confidenceSource \<Rightarrow> real" where
  "sourceConfidence SrcSpree = 9 / 10"
| "sourceConfidence SrcCommunity = 7 / 10"
| "sourceConfidence SrcGoogle = 6 / 10"

definition quantityAdjust :: "real \<Rightarrow> real" where
  "quantityAdjust dataPoints =
     (if dataPoints \<ge> 20 then 1 / 10
      else if dataPoints \<ge> 10 then 5 / 100
      else if dataPoints < 3 then - (2 / 10)
      else 0)"

text \<open>The freshness adjustment is one \<^verbatim>\<open>if / else if / else if\<close> chain, in the
  order of the source.\<close>

definition freshnessAdjust :: "real \<Rightarrow> real" where
  "freshnessAdjust dataAge =
     (if dataAge < 15 then 5 / 100
      else if dataAge > 60 then - (1 / 10)
      else if dataAge > 120 then - (2 / 10)
      else 0)"

definition calculateConfidence :: "real \<Rightarrow> real \<Rightarrow> confidenceSource \<Rightarrow> real" where
  "calculateConfidence dataPoints dataAge src =
     (let baseConfidence = sourceConfidence src;
          baseConfidence = baseConfidence + quantityAdjust dataPoints;
          baseConfidence = baseConfidence + freshnessAdjust dataAge
      in min 1 (max (1 / 10) baseConfidence))"

section \<open>Busyness services: relative level and trend\<close>

text \<open>
  A JavaScript division never raises: a zero divisor gives \<^verbatim>\<open>Infinity\<close>,
  \<^verbatim>\<open>-Infinity\<close> or \<^verbatim>\<open>NaN\<close>. The quotient is modelled with these three
  values beside the finite ones, and \<^verbatim>\<open><\<close> as JavaScript compares them (every
  comparison with \<^verbatim>\<open>NaN\<close> is false).
\<close>

datatype jsnum = Fin real | PosInf | NegInf | NaN

definition js_div :: "real \<Rightarrow> real \<Rightarrow> jsnum" where
  "js_div a b =
     (if b \<noteq> 0 then Fin (a / b)
      else if a > 0 then PosInf
      else if a < 0 then NegInf
      else NaN)"

fun js_less :: "jsnum \<Rightarrow> real \<Rightarrow> bool" where
  "js_less (Fin x) c = (x < c)"
| "js_less NegInf c = True"
| "js_less PosInf c = False"
| "js_less NaN c = False"

text \<open>The five bands shared by both services.\<close>

definition levelOfRatio :: "jsnum \<Rightarrow> relativeLevel" where
  "levelOfRatio ratio =
     (if js_less ratio (5 / 10) then Low
      else if js_less ratio (8 / 10) then BelowAverage
      else if js_less ratio (12 / 10) then Average
      else if js_less ratio (15 / 10) then AboveAverage
      else High)"

text \<open>\<^verbatim>\<open>GoogleBusynessService\<close> (lib/pulse/services/google-service.ts):
  \<^verbatim>\<open>const ratio = usual > 0 ? current / usual : 1\<close>.\<close>

definition relativeRatio :: "real \<Rightarrow> real \<Rightarrow> jsnum" where
  "relativeRatio current usual = (if usual > 0 then js_div current usual else Fin 1)"

definition calculateRelativeLevel :: "real \<Rightarrow> real \<Rightarrow> relativeLevel" where
  "calculateRelativeLevel current usual = levelOfRatio (relativeRatio current usual)"

definition calculateTrend :: "real \<Rightarrow> real \<Rightarrow> trend" where
  "calculateTrend current usual =
     (let difference = current - usual
      in if difference > 10 then TrendIncreasing
         else if difference < - 10 then TrendDecreasing
         else TrendStable)"

text \<open>\<^verbatim>\<open>GoogleLiveBusynessService.getBusynessLevel\<close> (lib/ai/google-live-busyness.ts)
  returns before the division when \<^verbatim>\<open>usual === 0\<close>; \<open>liveRatio\<close> is the quotient it
  computes, \<open>None\<close> when the function has returned before computing one.\<close>

definition liveRatio :: "real \<Rightarrow> real \<Rightarrow> jsnum option" where
  "liveRatio current usual = (if usual = 0 then None else Some (js_div current usual))"

definition getBusynessLevel :: "real \<Rightarrow> real \<Rightarrow> relativeLevel" where
  "getBusynessLevel current usual =
     (case liveRatio current usual of
        None \<Rightarrow> Average
      | Some ratio \<Rightarrow> levelOfRatio ratio)"

record GoogleBusynessData =
  currentBusyness :: real
  usualBusyness :: real
  g_relativeLevel :: relativeLevel
  g_trend :: trend
  g_lastUpdated :: int
  g_confidence :: real

section \<open>The store\<close>

text \<open>
  The tables the engine reads and writes, each a list of rows in insertion order. Times
  are milliseconds since the epoch. \<open>is_active\<close> is the column the batch query filters
  on; the columns of \<^verbatim>\<open>VenueRecord\<close> that no function reads (capacity, venue type,
  coordinates) are left out.
\<close>

datatype error = VenueNotFound nat | RateLimited | StoreError

text \<open>The lines the functions write to the console.\<close>

datatype console_line =
    LogQueued nat
  | LogCalcError nat error
  | LogBatchStart
  | LogNoVenues
  | LogFound nat
  | LogUpdateFailed string
  | LogProgress nat nat
  | LogComplete nat nat
  | LogHot real string

datatype crowd = Crowd0 | Crowd25 | Crowd50 | Crowd75 | Crowd100

record VenueRecord =
  venue_id :: nat
  venue_name :: string
  google_place_id :: "string option"
  spree_onboarded :: bool
  is_active :: bool
  pulse :: real
  pulse_confidence :: "real option"
  pulse_data_source :: "VenueDataSource option"
  pulse_updated_at :: "int option"

record QuickVibeReport =
  q_venue_id :: nat
  q_user_id :: string
  q_vibe_level :: vibe
  q_wait_time_minutes :: "int option"
  q_crowd_estimate :: "crowd option"
  q_created_at :: "int option"

record vibe_report_row =
  r_venue_id :: nat
  r_user_id :: string
  r_vibe_level :: "vibe option"
  r_wait_time_minutes :: "int option"
  r_crowd_estimate :: "crowd option"
  r_created_at :: int

record AnonymousPing =
  a_venue_id :: nat
  a_device_id :: string
  a_created_at :: "int option"

record ping_row =
  p_venue_id :: nat
  p_device_id :: string
  p_created_at :: int

record signal_row =
  s_venue_id :: nat
  s_signal_type :: string
  s_created_at :: int

record points_row =
  up_user_id :: string
  up_points :: int
  up_source_type :: string
  up_timestamp :: int

record history_row =
  h_venue_id :: nat
  h_pulse_value :: real
  h_confidence :: real
  h_data_sources :: "VenueDataSource list"

record calc_log_row =
  l_venue_id :: nat
  l_calculated_pulse :: real
  l_data_source :: VenueDataSource
  l_confidence :: real
  l_metrics :: "VenueMetrics option"

record db =
  venues :: "VenueRecord list"
  community_vibe_reports :: "vibe_report_row list"
  anonymous_pings :: "ping_row list"
  social_signals :: "signal_row list"
  user_points :: "points_row list"
  pulse_history :: "history_row list"
  pulse_calculations_log :: "calc_log_row list"
  console :: "console_line list"

text \<open>
  What the collaborators answer, where the sources only call them: whether the store
  rejects a write, the metrics the store's queries give for a venue (or the error they
  throw), and the sample the busyness client returns for a place
  (\<^verbatim>\<open>getBusyness\<close> catches every error and returns \<^verbatim>\<open>null\<close>). The store's
  client does not throw on a rejected write: it returns the error in the result of the
  awaited call. \<^verbatim>\<open>submitVibeReport\<close> reads that result and throws the error; every
  other function discards it, so a rejected write changes nothing and the function
  goes on.
\<close>

record env =
  report_insert_fails :: "vibe_report_row \<Rightarrow> bool"
  venue_metrics :: "nat \<Rightarrow> error + VenueMetrics"
  log_insert_fails :: "nat \<Rightarrow> bool"
  busyness :: "string \<Rightarrow> GoogleBusynessData option"
  venue_update_fails :: "nat \<Rightarrow> bool"
  history_insert_fails :: "nat \<Rightarrow> bool"

text \<open>The clock: \<^verbatim>\<open>Date.now()\<close>, \<^verbatim>\<open>getHours()\<close> and \<^verbatim>\<open>getDay()\<close>.\<close>

record clock =
  now_ms :: int
  now_hours :: int
  now_day :: int

text \<open>supabase's \<^verbatim>\<open>.single()\<close> gives the row when the query matches exactly one row,
  and \<^verbatim>\<open>null\<close> data otherwise.\<close>

fun single :: "'a list \<Rightarrow> 'a option" where
  "single [x] = Some x"
| "single xs = None"

section \<open>lib/pulse/community.ts: CommunityDataService\<close>

definition hour_ms :: int where
  "hour_ms = 60 * 60 * 1000"

definition recentReports :: "db \<Rightarrow> nat \<Rightarrow> string \<Rightarrow> int \<Rightarrow> vibe_report_row list" where
  "recentReports d vid uid since =
     filter (\<lambda>r. r_venue_id r = vid \<and> r_user_id r = uid \<and> r_created_at r \<ge> since)
       (community_vibe_reports d)"

definition report_row :: "QuickVibeReport \<Rightarrow> int \<Rightarrow> vibe_report_row" where
  "report_row report now =
     \<lparr> r_venue_id = q_venue_id report, r_user_id = q_user_id report,
       r_vibe_level = Some (q_vibe_level report),
       r_wait_time_minutes = q_wait_time_minutes report,
       r_crowd_estimate = q_crowd_estimate report,
       r_created_at = now \<rparr>"

definition awardPoints :: "int \<Rightarrow> string \<Rightarrow> int \<Rightarrow> db \<Rightarrow> db" where
  "awardPoints now userId points d =
     d\<lparr> user_points := user_points d @
          [\<lparr> up_user_id = userId, up_points = points,
             up_source_type = ''community'', up_timestamp = now \<rparr>] \<rparr>"

definition queuePulseUpdate :: "nat \<Rightarrow> db \<Rightarrow> db" where
  "queuePulseUpdate vid d = d\<lparr> console := console d @ [LogQueued vid] \<rparr>"

definition submitVibeReport :: "env \<Rightarrow> int \<Rightarrow> QuickVibeReport \<Rightarrow> db \<Rightarrow> error + db" where
  "submitVibeReport e now report d =
     (let oneHourAgo = now - hour_ms;
          existing = single (recentReports d (q_venue_id report) (q_user_id report) oneHourAgo)
      in if existing \<noteq> None then Inl RateLimited
         else let row = report_row report now
              in if report_insert_fails e row then Inl StoreError
                 else let d = d\<lparr> community_vibe_reports := community_vibe_reports d @ [row] \<rparr>;
                          d = awardPoints now (q_user_id report) 5 d
                      in Inr (queuePulseUpdate (q_venue_id report) d))"

definition recentPings :: "db \<Rightarrow> nat \<Rightarrow> string \<Rightarrow> int \<Rightarrow> ping_row list" where
  "recentPings d vid dev since =
     filter (\<lambda>p. p_venue_id p = vid \<and> p_device_id p = dev \<and> p_created_at p \<ge> since)
       (anonymous_pings d)"

definition submitAnonymousPing :: "int \<Rightarrow> AnonymousPing \<Rightarrow> db \<Rightarrow> db" where
  "submitAnonymousPing now ping d =
     (let oneHourAgo = now - hour_ms;
          existing = single (recentPings d (a_venue_id ping) (a_device_id ping) oneHourAgo)
      in if existing \<noteq> None then d
         else d\<lparr> anonymous_pings := anonymous_pings d @
                  [\<lparr> p_venue_id = a_venue_id ping, p_device_id = a_device_id ping,
                     p_created_at = now \<rparr>] \<rparr>)"

record CommunityConsensus =
  vibeReports :: nat
  consensusVibe :: "vibe option"
  vibeScores :: "(vibe \<times> nat) list"
  averageWaitTime :: "real option"
  anonymousPings :: nat
  uniqueDevices :: nat
  socialSignals :: nat
  dataPoints :: nat

text \<open>\<^verbatim>\<open>vibeScores\<close> is an object whose keys were inserted in the order dead, chill,
  busy, packed; \<^verbatim>\<open>Object.values\<close> and \<^verbatim>\<open>Object.entries\<close> follow that order.\<close>

definition initialScores :: "(vibe \<times> nat) list" where
  "initialScores = [(Dead, 0), (Chill, 0), (Busy, 0), (Packed, 0)]"

definition increment :: "vibe \<Rightarrow> (vibe \<times> nat) list \<Rightarrow> (vibe \<times> nat) list" where
  "increment v scores = map (\<lambda>(k, n). if k = v then (k, n + 1) else (k, n)) scores"

text \<open>One round of the \<^verbatim>\<open>forEach\<close> over the reports; the state is
  \<open>(vibeScores, totalWaitTime, waitTimeReports)\<close>. A wait time of \<open>0\<close> is falsy.\<close>

definition tallyReport ::
  "(vibe \<times> nat) list \<times> int \<times> nat \<Rightarrow> vibe_report_row \<Rightarrow> (vibe \<times> nat) list \<times> int \<times> nat" where
  "tallyReport st report =
     (case st of (scores, totalWaitTime, waitTimeReports) \<Rightarrow>
        let scores = (case r_vibe_level report of
                         Some v \<Rightarrow> increment v scores
                       | None \<Rightarrow> scores)
        in (case r_wait_time_minutes report of
              None \<Rightarrow> (scores, totalWaitTime, waitTimeReports)
            | Some w \<Rightarrow>
                if w = 0 then (scores, totalWaitTime, waitTimeReports)
                else (scores, totalWaitTime + w, waitTimeReports + 1)))"

text \<open>One round of the \<^verbatim>\<open>forEach\<close> over the entries; the state is
  \<open>(consensusVibe, maxVotes)\<close>.\<close>

definition consensusStep :: "nat \<Rightarrow> vibe option \<times> nat \<Rightarrow> vibe \<times> nat \<Rightarrow> vibe option \<times> nat" where
  "consensusStep totalVibeReports st entry =
     (case st of (best, maxVotes) \<Rightarrow>
        case entry of (label, votes) \<Rightarrow>
          if votes > maxVotes \<and> real votes \<ge> real totalVibeReports * (3 / 10)
          then (Some label, votes)
          else (best, maxVotes))"

definition findConsensus :: "(vibe \<times> nat) list \<Rightarrow> vibe option" where
  "findConsensus scores =
     (let totalVibeReports = foldl (+) 0 (map snd scores)
      in fst (foldl (consensusStep totalVibeReports) (None, 0) scores))"

text \<open>The three queries of \<^verbatim>\<open>getConsensus\<close>: the rows of a venue created at or after
  \<open>since\<close>. A query that fails gives \<^verbatim>\<open>null\<close> data, which the function reads as no
  rows.\<close>

definition vibeReportsSince :: "db \<Rightarrow> nat \<Rightarrow> int \<Rightarrow> vibe_report_row list" where
  "vibeReportsSince d vid since =
     filter (\<lambda>r. r_venue_id r = vid \<and> r_created_at r \<ge> since) (community_vibe_reports d)"

definition pingsSince :: "db \<Rightarrow> nat \<Rightarrow> int \<Rightarrow> ping_row list" where
  "pingsSince d vid since =
     filter (\<lambda>p. p_venue_id p = vid \<and> p_created_at p \<ge> since) (anonymous_pings d)"

definition signalsSince :: "db \<Rightarrow> nat \<Rightarrow> int \<Rightarrow> signal_row list" where
  "signalsSince d vid since =
     filter (\<lambda>s. s_venue_id s = vid \<and> s_created_at s \<ge> since) (social_signals d)"

definition getConsensus :: "db \<Rightarrow> int \<Rightarrow> nat \<Rightarrow> int \<Rightarrow> CommunityConsensus" where
  "getConsensus d now vid minutesBack =
     (let since = now - minutesBack * 60 * 1000;
          reports = vibeReportsSince d vid since;
          pings = pingsSince d vid since;
          signals = signalsSince d vid since
      in case foldl tallyReport (initialScores, 0, 0) reports of
           (scores, totalWaitTime, waitTimeReports) \<Rightarrow>
             let totalVibeReports = foldl (+) 0 (map snd scores)
             in \<lparr> vibeReports = totalVibeReports,
                  consensusVibe = findConsensus scores,
                  vibeScores = scores,
                  averageWaitTime =
                    (if waitTimeReports > 0
                     then Some (real_of_int totalWaitTime / real waitTimeReports)
                     else None),
                  anonymousPings = length pings,
                  uniqueDevices = length (remdups (map p_device_id pings)),
                  socialSignals = length signals,
                  dataPoints = totalVibeReports + length pings + length signals \<rparr>)"

text \<open>The result is the pair \<open>(influence, adjustment)\<close>. A \<^verbatim>\<open>null\<close> or zero average
  wait time is falsy.\<close>

definition vibeAdjustment :: "vibe option \<Rightarrow> real" where
  "vibeAdjustment v =
     (if v = Some Packed then 2
      else if v = Some Busy then 1
      else if v = Some Chill then 0
      else if v = Some Dead then - 2
      else 0)"

definition calculateInfluence :: "CommunityConsensus \<Rightarrow> real \<times> real" where
  "calculateInfluence consensus =
     (if dataPoints consensus < 3 then (0, 0)
      else
        let influence = min (4 / 10) (real (dataPoints consensus) / 20);
            influence = (if consensusVibe consensus \<noteq> None \<and> vibeReports consensus \<ge> 5
                         then min (6 / 10) (influence + 2 / 10) else influence);
            adjustment = vibeAdjustment (consensusVibe consensus);
            adjustment = (case averageWaitTime consensus of
                            None \<Rightarrow> adjustment
                          | Some w \<Rightarrow>
                              if w = 0 then adjustment
                              else if w \<ge> 30 then adjustment + 1
                              else if w \<ge> 15 then adjustment + 5 / 10
                              else adjustment);
            adjustment = (if uniqueDevices consensus \<ge> 20 then adjustment + 5 / 10
                          else adjustment);
            adjustment = (if socialSignals consensus \<ge> 5 then adjustment + 3 / 10
                          else adjustment);
            adjustment = max (- 2) (min 2 adjustment)
        in (influence, adjustment))"

section \<open>lib/pulse/engine.ts: PulseEngine\<close>

definition getVenue :: "db \<Rightarrow> nat \<Rightarrow> VenueRecord option" where
  "getVenue d vid = single (filter (\<lambda>v. venue_id v = vid) (venues d))"

definition getDefaultPulse :: "clock \<Rightarrow> PulseData" where
  "getDefaultPulse clk =
     \<lparr> pulse_value = 5, confidence = 3 / 10, dataSource = ESTIMATED,
       lastUpdated = now_ms clk, breakdown = None \<rparr>"

definition logCalculation :: "nat \<Rightarrow> PulseData \<Rightarrow> VenueMetrics option \<Rightarrow> db \<Rightarrow> db" where
  "logCalculation vid p metrics d =
     d\<lparr> pulse_calculations_log := pulse_calculations_log d @
          [\<lparr> l_venue_id = vid, l_calculated_pulse = pulse_value p,
             l_data_source = dataSource p, l_confidence = confidence p,
             l_metrics = metrics \<rparr>] \<rparr>"

text \<open>\<^verbatim>\<open>metrics.reportedWaitTime || undefined\<close>: a zero wait time is dropped.\<close>

definition truthy_number :: "real option \<Rightarrow> real option" where
  "truthy_number x = (case x of None \<Rightarrow> None | Some w \<Rightarrow> if w = 0 then None else Some w)"

definition calculateSpreePulse ::
  "env \<Rightarrow> clock \<Rightarrow> db \<Rightarrow> VenueRecord \<Rightarrow> (error + PulseData) \<times> db" where
  "calculateSpreePulse e clk d venue =
     (case venue_metrics e (venue_id venue) of
        Inl err \<Rightarrow> (Inl err, d)
      | Inr metrics \<Rightarrow>
          let p = \<lparr> pulse_value = calculateFromMetrics metrics,
                    confidence = 95 / 100,
                    dataSource = SPREE,
                    lastUpdated = now_ms clk,
                    breakdown = Some \<lparr> checkIns = Some (activeCheckIns metrics),
                                       googleBusy = None,
                                       communityReports = None,
                                       waitTime = truthy_number (reportedWaitTime metrics),
                                       vibeScore = Some (recentSentiment metrics) \<rparr> \<rparr>
          in (Inr p,
              if log_insert_fails e (venue_id venue) then d
              else logCalculation (venue_id venue) p (Some metrics) d))"

text \<open>Step 1 of \<^verbatim>\<open>calculateNonPartnerPulse\<close>: the state
  \<open>(basePulse, confidence, dataSource, googleBusy)\<close> after the Google data. An empty
  place id is falsy.\<close>

definition googleStep :: "env \<Rightarrow> VenueRecord \<Rightarrow> real \<times> real \<times> VenueDataSource \<times> real" where
  "googleStep e venue =
     (case google_place_id venue of
        None \<Rightarrow> (5, 5 / 10, ESTIMATED, 0)
      | Some placeId \<Rightarrow>
          if placeId = [] then (5, 5 / 10, ESTIMATED, 0)
          else (case busyness e placeId of
                  None \<Rightarrow> (5, 5 / 10, ESTIMATED, 0)
                | Some googleData \<Rightarrow>
                    if currentBusyness googleData > 0
                    then (convertGoogleToSpree (currentBusyness googleData), 6 / 10, GOOGLE,
                          currentBusyness googleData)
                    else (5, 5 / 10, ESTIMATED, 0)))"

text \<open>Step 2: the state \<open>(basePulse, confidence, dataSource)\<close> after the community
  data.\<close>

definition communityStep ::
  "CommunityConsensus \<Rightarrow> real \<times> real \<times> VenueDataSource \<Rightarrow> real \<times> real \<times> VenueDataSource" where
  "communityStep communityData st =
     (case st of (basePulse, conf, src) \<Rightarrow>
        if dataPoints communityData \<ge> 3
        then (case calculateInfluence communityData of (influence, adjustment) \<Rightarrow>
                if influence > 0
                then (basePulse * (1 - influence) + (basePulse + adjustment) * influence,
                      min (8 / 10) (conf + influence * (3 / 10)),
                      if dataPoints communityData \<ge> 10 then COMMUNITY else src)
                else (basePulse, conf, src))
        else (basePulse, conf, src))"

definition calculateNonPartnerPulse :: "env \<Rightarrow> clock \<Rightarrow> db \<Rightarrow> VenueRecord \<Rightarrow> PulseData" where
  "calculateNonPartnerPulse e clk d venue =
     (case googleStep e venue of (basePulse0, conf0, src0, busy) \<Rightarrow>
        let communityData = getConsensus d (now_ms clk) (venue_id venue) 60
        in case communityStep communityData (basePulse0, conf0, src0) of
             (basePulse, conf, src) \<Rightarrow>
               let basePulse = applyTimeModifiers basePulse
                                 (of_int (now_hours clk)) (of_int (now_day clk));
                   finalPulse = min 10 (max 0 basePulse)
               in \<lparr> pulse_value = js_round (finalPulse * 10) / 10,
                    confidence = conf,
                    dataSource = src,
                    lastUpdated = now_ms clk,
                    breakdown = Some \<lparr> checkIns = None,
                                       googleBusy = Some busy,
                                       communityReports = Some (dataPoints communityData),
                                       waitTime = None,
                                       vibeScore = None \<rparr> \<rparr>)"

text \<open>The body of the \<^verbatim>\<open>try\<close> block of \<^verbatim>\<open>calculatePulse\<close>: a \<^verbatim>\<open>throw\<close> is
  \<open>Inl\<close>.\<close>

definition calculatePulse_try ::
  "env \<Rightarrow> clock \<Rightarrow> db \<Rightarrow> nat \<Rightarrow> (error + PulseData) \<times> db" where
  "calculatePulse_try e clk d vid =
     (case getVenue d vid of
        None \<Rightarrow> (Inl (VenueNotFound vid), d)
      | Some venue \<Rightarrow>
          if spree_onboarded venue then calculateSpreePulse e clk d venue
          else (Inr (calculateNonPartnerPulse e clk d venue), d))"

text \<open>\<^verbatim>\<open>calculatePulse\<close>: the \<^verbatim>\<open>try\<close> block and its \<^verbatim>\<open>catch\<close>, which logs the
  error and returns the default pulse. The result keeps the type of a call that may
  throw.\<close>

definition calculatePulse ::
  "env \<Rightarrow> clock \<Rightarrow> db \<Rightarrow> nat \<Rightarrow> (error + PulseData) \<times> db" where
  "calculatePulse e clk d vid =
     (case calculatePulse_try e clk d vid of
        (Inl err, d') \<Rightarrow>
          (Inr (getDefaultPulse clk), d'\<lparr> console := console d' @ [LogCalcError vid err] \<rparr>)
      | (Inr p, d') \<Rightarrow> (Inr p, d'))"

section \<open>lib/pulse/engine.ts: PulseBatchUpdateService\<close>

record update_result =
  success :: bool
  ur_venueId :: nat
  ur_name :: string
  ur_pulse :: real
  ur_dataSource :: VenueDataSource

record hot_venue =
  hv_id :: nat
  hv_name :: string
  hv_pulse :: real

record batch_summary =
  total :: nat
  updated :: nat
  failed :: nat
  hotVenues :: "hot_venue list"

definition batchSize :: nat where
  "batchSize = 10"

text \<open>The active venues, partners first. No venues and \<^verbatim>\<open>null\<close> data (a failed
  query) take the same early return.\<close>

definition activeVenues :: "db \<Rightarrow> VenueRecord list" where
  "activeVenues d =
     (let active = filter is_active (venues d)
      in filter spree_onboarded active @ filter (\<lambda>v. \<not> spree_onboarded v) active)"

definition persistPulse :: "nat \<Rightarrow> PulseData \<Rightarrow> db \<Rightarrow> db" where
  "persistPulse vid p d =
     d\<lparr> venues := map (\<lambda>v. if venue_id v = vid
                            then v\<lparr> pulse := pulse_value p,
                                   pulse_confidence := Some (confidence p),
                                   pulse_data_source := Some (dataSource p),
                                   pulse_updated_at := Some (lastUpdated p) \<rparr>
                            else v) (venues d) \<rparr>"

definition appendHistory :: "nat \<Rightarrow> PulseData \<Rightarrow> db \<Rightarrow> db" where
  "appendHistory vid p d =
     d\<lparr> pulse_history := pulse_history d @
          [\<lparr> h_venue_id = vid, h_pulse_value = pulse_value p,
             h_confidence = confidence p, h_data_sources = [dataSource p] \<rparr>] \<rparr>"

definition failedResult :: "VenueRecord \<Rightarrow> db \<Rightarrow> update_result \<times> db" where
  "failedResult venue d =
     (\<lparr> success = False, ur_venueId = venue_id venue, ur_name = venue_name venue,
        ur_pulse = 0, ur_dataSource = ESTIMATED \<rparr>,
      d\<lparr> console := console d @ [LogUpdateFailed (venue_name venue)] \<rparr>)"

text \<open>The task \<^verbatim>\<open>updateAllVenues\<close> maps over a batch: its \<^verbatim>\<open>try\<close> block computes
  the pulse, updates the venue's row and appends to the history, discarding the results
  of both writes, and returns the successful result; its \<^verbatim>\<open>catch\<close> returns the
  failed result.\<close>

definition updateTask :: "env \<Rightarrow> clock \<Rightarrow> db \<Rightarrow> VenueRecord \<Rightarrow> update_result \<times> db" where
  "updateTask e clk d venue =
     (case calculatePulse e clk d (venue_id venue) of
        (Inl err, d1) \<Rightarrow> failedResult venue d1
      | (Inr p, d1) \<Rightarrow>
          let d2 = (if venue_update_fails e (venue_id venue) then d1
                    else persistPulse (venue_id venue) p d1);
              d3 = (if history_insert_fails e (venue_id venue) then d2
                    else appendHistory (venue_id venue) p d2)
          in (\<lparr> success = True, ur_venueId = venue_id venue,
                 ur_name = venue_name venue, ur_pulse = pulse_value p,
                 ur_dataSource = dataSource p \<rparr>,
              d3))"

text \<open>\<^verbatim>\<open>Promise.all\<close> over one batch. The tasks of a batch touch different rows; the
  model runs them in the order of the batch, and the results come in that order.\<close>

fun processBatch ::
  "env \<Rightarrow> clock \<Rightarrow> db \<Rightarrow> VenueRecord list \<Rightarrow> update_result list \<times> db" where
  "processBatch e clk d [] = ([], d)"
| "processBatch e clk d (venue # rest) =
     (case updateTask e clk d venue of (r, d1) \<Rightarrow>
        case processBatch e clk d1 rest of (rs, d2) \<Rightarrow> (r # rs, d2))"

definition slice :: "'a list \<Rightarrow> nat \<Rightarrow> nat \<Rightarrow> 'a list" where
  "slice xs i j = take (j - i) (drop i xs)"

text \<open>The \<^verbatim>\<open>for\<close> loop over the batches; the state is the results so far and the
  store. Each round logs its progress line.\<close>

function batchLoop ::
  "env \<Rightarrow> clock \<Rightarrow> VenueRecord list \<Rightarrow> nat \<Rightarrow> update_result list \<times> db \<Rightarrow> update_result list \<times> db" where
  "batchLoop e clk vs i st =
     (if i < length vs
      then (case st of (results, d) \<Rightarrow>
              case processBatch e clk d (slice vs i (i + batchSize)) of
                (batchResults, d1) \<Rightarrow>
                  batchLoop e clk vs (i + batchSize)
                    (results @ batchResults,
                     d1\<lparr> console := console d1 @
                          [LogProgress (min (i + batchSize) (length vs)) (length vs)] \<rparr>))
      else st)"
  by pat_completeness auto
termination
  by (relation "measure (\<lambda>(e, clk, vs, i, st). length vs - i)") (auto simp: batchSize_def)

declare batchLoop.simps [simp del]

definition toHot :: "update_result \<Rightarrow> hot_venue" where
  "toHot r = \<lparr> hv_id = ur_venueId r, hv_name = ur_name r, hv_pulse = ur_pulse r \<rparr>"

text \<open>The results of all batches, before the statistics.\<close>

definition allResults :: "env \<Rightarrow> clock \<Rightarrow> db \<Rightarrow> update_result list \<times> db" where
  "allResults e clk d =
     (let vs = activeVenues d
      in batchLoop e clk vs 0
           ([], d\<lparr> console := console d @ [LogBatchStart, LogFound (length vs)] \<rparr>))"

text \<open>\<^verbatim>\<open>Array.prototype.sort\<close> is stable; the comparator orders by descending pulse.\<close>

definition updateAllVenues :: "env \<Rightarrow> clock \<Rightarrow> db \<Rightarrow> batch_summary \<times> db" where
  "updateAllVenues e clk d =
     (let vs = activeVenues d
      in if vs = []
         then (\<lparr> total = 0, updated = 0, failed = 0, hotVenues = [] \<rparr>,
               d\<lparr> console := console d @ [LogBatchStart, LogNoVenues] \<rparr>)
         else (case allResults e clk d of (results, d1) \<Rightarrow>
                 let n_updated = length (filter success results);
                     n_failed = length (filter (\<lambda>r. \<not> success r) results);
                     hot = sort_key (\<lambda>h. - hv_pulse h)
                             (map toHot (filter (\<lambda>r. success r \<and> ur_pulse r \<ge> 7) results))
                 in (\<lparr> total = length vs, updated = n_updated, failed = n_failed,
                        hotVenues = hot \<rparr>,
                     d1\<lparr> console := console d1 @ [LogComplete n_updated n_failed] @
                          map (\<lambda>h. LogHot (hv_pulse h) (hv_name h)) hot \<rparr>)))"

text \<open>\<^verbatim>\<open>updateVenue\<close>: the single-venue refresh.\<close>

definition updateVenue :: "env \<Rightarrow> clock \<Rightarrow> db \<Rightarrow> nat \<Rightarrow> (error + PulseData) \<times> db" where
  "updateVenue e clk d vid =
     (case calculatePulse e clk d vid of
        (Inl err, d1) \<Rightarrow> (Inl err, d1)
      | (Inr p, d1) \<Rightarrow>
          (Inr p, if venue_update_fails e vid then d1 else persistPulse vid p d1))"

section \<open>lib/pulse/index.ts: the Pulse API\<close>

definition calculate :: "env \<Rightarrow> clock \<Rightarrow> db \<Rightarrow> nat \<Rightarrow> (error + PulseData) \<times> db" where
  "calculate e clk d vid = calculatePulse e clk d vid"

definition updateAll :: "env \<Rightarrow> clock \<Rightarrow> db \<Rightarrow> batch_summary \<times> db" where
  "updateAll e clk d = updateAllVenues e clk d"

section \<open>Vocabulary of the properties\<close>

text \<open>The votes a label has among some reports, and the place of a label in the order
  of the entries of \<^verbatim>\<open>vibeScores\<close>.\<close>

definition votes :: "vibe \<Rightarrow> vibe_report_row list \<Rightarrow> nat" where
  "votes v rs = length (filter (\<lambda>r. r_vibe_level r = Some v) rs)"

definition totalVotes :: "vibe_report_row list \<Rightarrow> nat" where
  "totalVotes rs = votes Dead rs + votes Chill rs + votes Busy rs + votes Packed rs"

fun rank :: "vibe \<Rightarrow> nat" where
  "rank Dead = 0"
| "rank Chill = 1"
| "rank Busy = 2"
| "rank Packed = 3"


text \<open>The result row of a venue's own evaluation in the store \<open>d\<close>: the row built
  from what \<^verbatim>\<open>calculatePulse\<close> returns for the venue there.\<close>

definition evaluated :: "env \<Rightarrow> clock \<Rightarrow> db \<Rightarrow> VenueRecord \<Rightarrow> update_result" where
  "evaluated e clk d venue =
     (case fst (calculatePulse e clk d (venue_id venue)) of
        Inl err \<Rightarrow>
          \<lparr> success = False, ur_venueId = venue_id venue, ur_name = venue_name venue,
            ur_pulse = 0, ur_dataSource = ESTIMATED \<rparr>
      | Inr p \<Rightarrow>
          \<lparr> success = True, ur_venueId = venue_id venue, ur_name = venue_name venue,
            ur_pulse = pulse_value p, ur_dataSource = dataSource p \<rparr>)"


text \<open>What the engine reads of a venue's row, and two stores that agree on all the
  engine reads: the batch changes neither.\<close>

definition venueKey :: "VenueRecord \<Rightarrow> nat \<times> bool \<times> string option" where
  "venueKey v = (venue_id v, spree_onboarded v, google_place_id v)"

definition sameInputs :: "db \<Rightarrow> db \<Rightarrow> bool" where
  "sameInputs d d' =
     (community_vibe_reports d' = community_vibe_reports d
      \<and> anonymous_pings d' = anonymous_pings d
      \<and> social_signals d' = social_signals d
      \<and> map venueKey (venues d') = map venueKey (venues d))"

text \<open>The progress lines of the console: one for each batch.\<close>

fun isProgress :: "console_line \<Rightarrow> bool" where
  "isProgress (LogProgress a b) = True"
| "isProgress other = False"

section \<open>Example stores\<close>

definition empty_db :: db where
  "empty_db =
     \<lparr> venues = [], community_vibe_reports = [], anonymous_pings = [], social_signals = [],
       user_points = [], pulse_history = [], pulse_calculations_log = [], console = [] \<rparr>"

definition quiet_env :: env where
  "quiet_env =
     \<lparr> report_insert_fails = (\<lambda>r. False),
       venue_metrics = (\<lambda>vid. Inl StoreError),
       log_insert_fails = (\<lambda>vid. False),
       busyness = (\<lambda>placeId. None),
       venue_update_fails = (\<lambda>vid. False),
       history_insert_fails = (\<lambda>vid. False) \<rparr>"

definition friday_night :: clock where
  "friday_night = \<lparr> now_ms = 3600000, now_hours = 23, now_day = 5 \<rparr>"

definition vote :: "string \<Rightarrow> vibe \<Rightarrow> vibe_report_row" where
  "vote user v =
     \<lparr> r_venue_id = 1, r_user_id = user, r_vibe_level = Some v,
       r_wait_time_minutes = None, r_crowd_estimate = None, r_created_at = 3000000 \<rparr>"

text \<open>Ten reports for venue 1: busy 3, chill 3, packed 2, dead 2.\<close>

definition split_db :: db where
  "split_db = empty_db\<lparr> community_vibe_reports :=
     [vote ''a'' Busy, vote ''b'' Chill, vote ''c'' Packed, vote ''d'' Dead,
      vote ''e'' Busy, vote ''f'' Chill, vote ''g'' Packed, vote ''h'' Dead,
      vote ''i'' Busy, vote ''j'' Chill] \<rparr>"

text \<open>A venue without partner data and without a place id, and four reports, all
  packed.\<close>

definition corner_bar :: VenueRecord where
  "corner_bar =
     \<lparr> venue_id = 1, venue_name = ''Corner Bar'', google_place_id = None,
       spree_onboarded = False, is_active = True, pulse = 5, pulse_confidence = None,
       pulse_data_source = None, pulse_updated_at = None \<rparr>"

definition packed_db :: db where
  "packed_db = empty_db\<lparr> venues := [corner_bar], community_vibe_reports :=
     [vote ''a'' Packed, vote ''b'' Packed, vote ''c'' Packed, vote ''d'' Packed] \<rparr>"

text \<open>The same venue with a place id, a busyness client that reports level 80 for it,
  and the ten reports.\<close>

definition google_bar :: VenueRecord where
  "google_bar = corner_bar\<lparr> google_place_id := Some ''place-1'' \<rparr>"

definition busy_env :: env where
  "busy_env = quiet_env\<lparr> busyness := (\<lambda>placeId.
     Some \<lparr> currentBusyness = 80, usualBusyness = 50, g_relativeLevel = High,
            g_trend = TrendIncreasing, g_lastUpdated = 3500000, g_confidence = 9 / 10 \<rparr>) \<rparr>"

definition crowd_db :: db where
  "crowd_db = split_db\<lparr> venues := [google_bar] \<rparr>"





definition first_report :: QuickVibeReport where
  "first_report =
     \<lparr> q_venue_id = 1, q_user_id = ''a'', q_vibe_level = Busy, q_wait_time_minutes = Some 10,
       q_crowd_estimate = None, q_created_at = None \<rparr>"

section \<open>Properties of the calculator\<close>

lemma js_round_tenths:
  assumes "0 \<le> x" and "x \<le> 10"
  shows "0 \<le> js_round (x * 10) / 10 \<and> js_round (x * 10) / 10 \<le> 10"
proof -
  have lo: "(0::int) \<le> floor (x * 10 + 1 / 2)"
    using assms by (simp add: zero_le_floor)
  have "x * 10 + 1 / 2 < 101" using assms by simp
  then have "floor (x * 10 + 1 / 2) < (101::int)"
    by (simp add: floor_less_iff)
  then have hi: "floor (x * 10 + 1 / 2) \<le> (100::int)" by simp
  from lo hi show ?thesis
    unfolding js_round_def by simp
qed

text \<open>
  C4. For every metrics record the composed score lies in \<open>[0, 10]\<close> and is an integer
  number of tenths: the value is clamped and then rounded to one decimal.
\<close>

theorem calculateFromMetrics_range_tenths:
  "0 \<le> calculateFromMetrics m \<and> calculateFromMetrics m \<le> 10
   \<and> (\<exists>k::int. calculateFromMetrics m = of_int k / 10)"
proof -
  define p where "p = (let pulse = calculateActivityScore (activeCheckIns m);
          pulse = pulse + calculateMomentumBoost (checkInTrend m);
          pulse = pulse + calculateVibeBoost (recentSentiment m) (vibePhotosCount m);
          pulse = pulse + calculateWaitTimeBoost (reportedWaitTime m);
          pulse = applyTimeModifiers pulse (hourOfDay m) (dayOfWeek m)
      in (if isSpecialEvent m then pulse * (12 / 10) else pulse))"
  define x where "x = min 10 (max 0 p)"
  have eq: "calculateFromMetrics m = js_round (x * 10) / 10"
    unfolding calculateFromMetrics_def x_def p_def Let_def by simp
  have "0 \<le> x" and "x \<le> 10" unfolding x_def by simp_all
  then have "0 \<le> js_round (x * 10) / 10 \<and> js_round (x * 10) / 10 \<le> 10"
    by (rule js_round_tenths)
  moreover have "\<exists>k::int. js_round (x * 10) / 10 = of_int k / 10"
    unfolding js_round_def by blast
  ultimately show ?thesis unfolding eq by simp
qed

lemma calculateActivityScore_mono:
  "a \<le> b \<Longrightarrow> calculateActivityScore a \<le> calculateActivityScore b"
  unfolding calculateActivityScore_def by (simp split: if_splits)

lemma convertGoogleToSpree_mono:
  "a \<le> b \<Longrightarrow> convertGoogleToSpree a \<le> convertGoogleToSpree b"
  unfolding convertGoogleToSpree_def
  by (auto simp: field_simps split: if_splits)

text \<open>
  C7. The activity score is monotone non-decreasing in the number of active check-ins,
  and the conversion of the external 0 to 100 scale is monotone non-decreasing in the
  level and gives exactly 3 at level 0.
\<close>

theorem monotone_scores:
  assumes "a \<le> b"
  shows "calculateActivityScore a \<le> calculateActivityScore b
       \<and> convertGoogleToSpree a \<le> convertGoogleToSpree b
       \<and> convertGoogleToSpree 0 = 3"
  using assms
  by (simp add: calculateActivityScore_mono convertGoogleToSpree_mono)
     (simp add: convertGoogleToSpree_def)

theorem monotone_scores_witness:
  "(3::real) \<le> 12 \<and> calculateActivityScore 3 \<le> calculateActivityScore 12
     \<and> convertGoogleToSpree 3 \<le> convertGoogleToSpree 12"
  using monotone_scores [of 3 12] by simp

subsection \<open>Confidence and the age of the data\<close>

lemma base_confidence_bounds:
  "4 / 10 \<le> sourceConfidence src + quantityAdjust n
   \<and> sourceConfidence src + quantityAdjust n \<le> 1"
  by (cases src) (simp_all add: quantityAdjust_def)

lemma freshnessAdjust_stale: "60 < age \<Longrightarrow> freshnessAdjust age = - (1 / 10)"
  by (simp add: freshnessAdjust_def)

text \<open>
  C3, as the claim states it, fails: with 5 data points of the partner source that are
  150 minutes old the confidence is 0.8, the base 0.9 with one deduction of 0.10, and
  not the 0.6 that a total deduction of 0.30 gives.
\<close>

theorem stale_confidence_counterexample:
  "calculateConfidence 5 150 SrcSpree = 8 / 10
   \<and> min 1 (max (1 / 10) (sourceConfidence SrcSpree + quantityAdjust 5 - 1 / 10 - 2 / 10))
       = (6 / 10 :: real)"
  by (simp add: calculateConfidence_def quantityAdjust_def freshnessAdjust_def)

text \<open>
  C3, amended. The age adjustments are the branches of one chain, so at most one of
  them applies: for data older than 60 minutes the confidence is the clamped base with a
  single age penalty (0.10 or 0.20), never with the sum 0.30, and for an age of at most
  120 minutes the penalty is 0.10.
\<close>

theorem stale_confidence_single_penalty:
  assumes "60 < age"
  shows "(\<exists>p. (p = 1 / 10 \<or> p = 2 / 10) \<and>
            calculateConfidence n age src
              = min 1 (max (1 / 10) (sourceConfidence src + quantityAdjust n - p)))
       \<and> calculateConfidence n age src
              \<noteq> min 1 (max (1 / 10) (sourceConfidence src + quantityAdjust n - 3 / 10))
       \<and> (age \<le> 120 \<longrightarrow> calculateConfidence n age src
              = min 1 (max (1 / 10) (sourceConfidence src + quantityAdjust n - 1 / 10)))"
proof -
  define x where "x = sourceConfidence src + quantityAdjust n"
  have b: "4 / 10 \<le> x" "x \<le> 1"
    using base_confidence_bounds [of src n] by (simp_all add: x_def)
  have eq: "calculateConfidence n age src = min 1 (max (1 / 10) (x - 1 / 10))"
    using assms by (simp add: calculateConfidence_def freshnessAdjust_stale x_def)
  have ne: "min 1 (max (1 / 10) (x - 1 / 10)) \<noteq> min 1 (max (1 / 10) (x - 3 / 10))"
    using b by (simp add: min_def max_def)
  have ex: "\<exists>p. (p = 1 / 10 \<or> p = 2 / 10) \<and>
      calculateConfidence n age src = min 1 (max (1 / 10) (x - p))"
    using eq by blast
  show ?thesis using eq ne ex unfolding x_def by simp
qed

theorem stale_confidence_single_penalty_witness:
  "(60::real) < 90 \<and> (90::real) \<le> 120
   \<and> calculateConfidence 5 90 SrcSpree
       = min 1 (max (1 / 10) (sourceConfidence SrcSpree + quantityAdjust 5 - 1 / 10))
   \<and> calculateConfidence 5 90 SrcSpree
       \<noteq> min 1 (max (1 / 10) (sourceConfidence SrcSpree + quantityAdjust 5 - 3 / 10))"
  using stale_confidence_single_penalty [of 90 5 SrcSpree] by simp

section \<open>Properties of the busyness services\<close>

text \<open>
  C10. Neither service divides by zero: the ratio the first service computes is always
  finite, and the second returns before dividing when the usual level is 0. When the
  usual level is 0 the first service takes the ratio to be 1, and both return the
  level average, whatever the current level.
\<close>

theorem relative_level_no_zero_division:
  "(\<exists>r. relativeRatio current usual = Fin r)
   \<and> (liveRatio current usual = None \<or> (\<exists>r. liveRatio current usual = Some (Fin r)))
   \<and> (usual = 0 \<longrightarrow> relativeRatio current usual = Fin 1
         \<and> calculateRelativeLevel current usual = Average
         \<and> liveRatio current usual = None
         \<and> getBusynessLevel current usual = Average)"
  by (simp add: relativeRatio_def liveRatio_def js_div_def calculateRelativeLevel_def
      getBusynessLevel_def levelOfRatio_def)

theorem relative_level_no_zero_division_witness:
  "relativeRatio 40 0 = Fin 1 \<and> calculateRelativeLevel 40 0 = Average
   \<and> liveRatio 40 0 = None \<and> getBusynessLevel 40 0 = Average"
  using relative_level_no_zero_division [of 40 0] by simp

section \<open>Properties of the community service\<close>

subsection \<open>Rate limit of the reports\<close>

lemma single_None_short: "length xs \<le> 1 \<Longrightarrow> single xs = None \<Longrightarrow> xs = []"
  by (cases xs rule: single.cases) auto

lemma filter_empty_weaken:
  "filter P xs = [] \<Longrightarrow> (\<And>x. Q x \<Longrightarrow> P x) \<Longrightarrow> filter Q xs = []"
  by (induction xs) (auto split: if_splits)

lemma recentReports_later:
  assumes "recentReports d v u s = []" and "s \<le> s'"
  shows "recentReports d v u s' = []"
  using assms unfolding recentReports_def
  by (elim filter_empty_weaken) auto

lemma submit_accepted:
  assumes "submitVibeReport e t r d = Inr d1"
  shows "single (recentReports d (q_venue_id r) (q_user_id r) (t - hour_ms)) = None
       \<and> community_vibe_reports d1 = community_vibe_reports d @ [report_row r t]"
  using assms
  by (auto simp: submitVibeReport_def Let_def awardPoints_def queuePulseUpdate_def
      split: if_splits)

text \<open>
  C8. Let the store hold at most one report of a participant for a venue in the hour
  before that participant's report at \<open>t1\<close>, and let that report be accepted. A second
  report of the same participant for the same venue at \<open>t2\<close> is rejected as rate
  limited while \<open>t2\<close> is within the hour after \<open>t1\<close> (59 minutes later, say), and is
  admitted once the hour has elapsed (61 minutes later), unless the store rejects the
  insert.
\<close>

theorem second_report_rate_limited:
  assumes inv: "length (recentReports d (q_venue_id r1) (q_user_id r1) (t1 - hour_ms)) \<le> 1"
      and first: "submitVibeReport e t1 r1 d = Inr d1"
      and venue: "q_venue_id r2 = q_venue_id r1"
      and user: "q_user_id r2 = q_user_id r1"
      and later: "t1 \<le> t2"
  shows "(t2 \<le> t1 + hour_ms \<longrightarrow> submitVibeReport e t2 r2 d1 = Inl RateLimited)
       \<and> (t1 + hour_ms < t2 \<longrightarrow> \<not> report_insert_fails e (report_row r2 t2) \<longrightarrow>
            (\<exists>d2. submitVibeReport e t2 r2 d1 = Inr d2
               \<and> community_vibe_reports d2 = community_vibe_reports d1 @ [report_row r2 t2]))"
proof -
  from submit_accepted [OF first]
  have none: "single (recentReports d (q_venue_id r1) (q_user_id r1) (t1 - hour_ms)) = None"
    and rows: "community_vibe_reports d1 = community_vibe_reports d @ [report_row r1 t1]"
    by simp_all
  from single_None_short [OF inv none]
  have clean: "recentReports d (q_venue_id r1) (q_user_id r1) (t1 - hour_ms) = []" .
  have old: "recentReports d (q_venue_id r1) (q_user_id r1) (t2 - hour_ms) = []"
    using recentReports_later [OF clean] later by simp
  have recent: "recentReports d1 (q_venue_id r2) (q_user_id r2) (t2 - hour_ms)
      = (if t2 \<le> t1 + hour_ms then [report_row r1 t1] else [])"
    using old by (auto simp: recentReports_def rows venue user report_row_def)
  show ?thesis
    by (auto simp: submitVibeReport_def Let_def recent awardPoints_def queuePulseUpdate_def)
qed

theorem second_report_rate_limited_witness:
  "(\<exists>d1. submitVibeReport quiet_env 0 first_report empty_db = Inr d1
      \<and> submitVibeReport quiet_env (59 * 60 * 1000) first_report d1 = Inl RateLimited
      \<and> (\<exists>d2. submitVibeReport quiet_env (61 * 60 * 1000) first_report d1 = Inr d2))"
proof -
  have inv: "length (recentReports empty_db (q_venue_id first_report) (q_user_id first_report)
      (0 - hour_ms)) \<le> 1"
    by (simp add: recentReports_def empty_db_def)
  obtain d1 where first: "submitVibeReport quiet_env 0 first_report empty_db = Inr d1"
    by (simp add: submitVibeReport_def recentReports_def empty_db_def quiet_env_def Let_def)
  have ok: "\<not> report_insert_fails quiet_env (report_row first_report (61 * 60 * 1000))"
    by (simp add: quiet_env_def)
  from second_report_rate_limited [OF inv first refl refl, of "59 * 60 * 1000"]
  have a: "submitVibeReport quiet_env (59 * 60 * 1000) first_report d1 = Inl RateLimited"
    by (simp add: hour_ms_def)
  from second_report_rate_limited [OF inv first refl refl, of "61 * 60 * 1000"] ok
  have b: "\<exists>d2. submitVibeReport quiet_env (61 * 60 * 1000) first_report d1 = Inr d2"
    by (auto simp: hour_ms_def)
  from first a b show ?thesis by blast
qed

subsection \<open>Consensus\<close>

lemma threshold_nat: "(real t * (3 / 10) \<le> real a) = (3 * t \<le> 10 * a)"
proof -
  have "(real t * (3 / 10) \<le> real a) = (real (3 * t) \<le> real (10 * a))"
    by (simp add: field_simps)
  also have "\<dots> = (3 * t \<le> 10 * a)" by (simp only: of_nat_le_iff)
  finally show ?thesis .
qed

lemma all_vibe: "(\<forall>v::vibe. P v) = (P Dead \<and> P Chill \<and> P Busy \<and> P Packed)"
  by (metis vibe.exhaust)

lemma tallyReport_scores:
  "fst (tallyReport ([(Dead, a), (Chill, b), (Busy, c), (Packed, p)], t, n) r)
     = [(Dead, a + votes Dead [r]), (Chill, b + votes Chill [r]),
        (Busy, c + votes Busy [r]), (Packed, p + votes Packed [r])]"
proof (cases "r_vibe_level r")
  case None
  then show ?thesis
    by (simp add: tallyReport_def votes_def Let_def split: option.splits)
next
  case (Some v)
  then show ?thesis
    by (cases v) (simp_all add: tallyReport_def votes_def increment_def Let_def split: option.splits)
qed

lemma votes_Cons: "votes v (r # rs) = votes v [r] + votes v rs"
  by (simp add: votes_def)

lemma foldl_tallyReport_scores:
  "fst (foldl tallyReport ([(Dead, a), (Chill, b), (Busy, c), (Packed, p)], t, n) rs)
     = [(Dead, a + votes Dead rs), (Chill, b + votes Chill rs),
        (Busy, c + votes Busy rs), (Packed, p + votes Packed rs)]"
proof (induction rs arbitrary: a b c p t n)
  case Nil
  then show ?case by (simp add: votes_def)
next
  case (Cons r rs)
  obtain s t' n' where st: "tallyReport ([(Dead, a), (Chill, b), (Busy, c), (Packed, p)], t, n) r = (s, t', n')"
    by (cases "tallyReport ([(Dead, a), (Chill, b), (Busy, c), (Packed, p)], t, n) r") auto
  have s: "s = [(Dead, a + votes Dead [r]), (Chill, b + votes Chill [r]),
        (Busy, c + votes Busy [r]), (Packed, p + votes Packed [r])]"
    using tallyReport_scores [of a b c p t n r] st by simp
  show ?case
    by (simp add: st s Cons.IH votes_Cons [of _ r rs] add.assoc)
qed

lemma findConsensus_four:
  "findConsensus [(Dead, d), (Chill, c), (Busy, b), (Packed, p)] =
     (let t = d + c + b + p;
          s1 = (if 0 < d \<and> 3 * t \<le> 10 * d then (Some Dead, d) else (None, 0));
          s2 = (if snd s1 < c \<and> 3 * t \<le> 10 * c then (Some Chill, c) else s1);
          s3 = (if snd s2 < b \<and> 3 * t \<le> 10 * b then (Some Busy, b) else s2);
          s4 = (if snd s3 < p \<and> 3 * t \<le> 10 * p then (Some Packed, p) else s3)
      in fst s4)"
  by (simp add: findConsensus_def consensusStep_def threshold_nat Let_def)

lemma findConsensus_char:
  fixes d c b p :: nat
  defines "sc \<equiv> (\<lambda>v. case v of Dead \<Rightarrow> d | Chill \<Rightarrow> c | Busy \<Rightarrow> b | Packed \<Rightarrow> p)"
  shows "(findConsensus [(Dead, d), (Chill, c), (Busy, b), (Packed, p)] = Some L) =
     (0 < sc L \<and> 3 * (d + c + b + p) \<le> 10 * sc L \<and> (\<forall>v. sc v \<le> sc L)
      \<and> (\<forall>v. rank v < rank L \<longrightarrow> sc v < sc L))"
  unfolding findConsensus_four all_vibe sc_def Let_def
  by (cases L) (auto split: if_splits)

lemma getConsensus_scores:
  "vibeScores (getConsensus d now vid m) =
     (let rs = vibeReportsSince d vid (now - m * 60 * 1000)
      in [(Dead, votes Dead rs), (Chill, votes Chill rs),
          (Busy, votes Busy rs), (Packed, votes Packed rs)])"
  and getConsensus_vibe:
  "consensusVibe (getConsensus d now vid m) = findConsensus (vibeScores (getConsensus d now vid m))"
  and getConsensus_reports:
  "vibeReports (getConsensus d now vid m) = totalVotes (vibeReportsSince d vid (now - m * 60 * 1000))"
proof -
  define rs where "rs = vibeReportsSince d vid (now - m * 60 * 1000)"
  obtain s t n where f: "foldl tallyReport (initialScores, 0, 0) rs = (s, t, n)"
    by (cases "foldl tallyReport (initialScores, 0, 0) rs") auto
  have s: "s = [(Dead, votes Dead rs), (Chill, votes Chill rs),
          (Busy, votes Busy rs), (Packed, votes Packed rs)]"
    using foldl_tallyReport_scores [of 0 0 0 0 0 0 rs] f by (simp add: initialScores_def)
  show "vibeScores (getConsensus d now vid m) =
     (let rs = vibeReportsSince d vid (now - m * 60 * 1000)
      in [(Dead, votes Dead rs), (Chill, votes Chill rs),
          (Busy, votes Busy rs), (Packed, votes Packed rs)])"
    unfolding getConsensus_def Let_def rs_def [symmetric] f s by simp
  show "consensusVibe (getConsensus d now vid m) = findConsensus (vibeScores (getConsensus d now vid m))"
    unfolding getConsensus_def Let_def rs_def [symmetric] f by simp
  show "vibeReports (getConsensus d now vid m) = totalVotes (vibeReportsSince d vid (now - m * 60 * 1000))"
    unfolding getConsensus_def Let_def rs_def [symmetric] f s by (simp add: totalVotes_def)
qed

lemmas consensus_eval = getConsensus_def vibeReportsSince_def
     pingsSince_def signalsSince_def tallyReport_def initialScores_def increment_def
     findConsensus_def consensusStep_def

text \<open>
  C2, as the claim states it, fails: with ten reports in the window, busy 3, chill 3,
  packed 2 and dead 2, the two leading labels tie and the consensus is chill, not
  \<^verbatim>\<open>null\<close>.
\<close>

theorem split_vote_counterexample:
  "votes Busy (vibeReportsSince split_db 1 0) = 3
   \<and> votes Chill (vibeReportsSince split_db 1 0) = 3
   \<and> votes Packed (vibeReportsSince split_db 1 0) = 2
   \<and> votes Dead (vibeReportsSince split_db 1 0) = 2
   \<and> consensusVibe (getConsensus split_db 3600000 1 60) = Some Chill"
  by (simp add: consensus_eval split_db_def empty_db_def vote_def votes_def)

text \<open>
  C2, amended. For all reports in the window, the consensus is the label \<open>L\<close> exactly
  when \<open>L\<close> has a vote, its votes are at least 30 percent of all votes, no label has
  more votes, and every label before \<open>L\<close> in the order dead, chill, busy, packed has
  fewer: among labels that tie for the maximum the first in that order is the
  consensus.
\<close>

theorem consensus_first_maximum:
  "(consensusVibe (getConsensus d now vid m) = Some L) =
     (let rs = vibeReportsSince d vid (now - m * 60 * 1000)
      in 0 < votes L rs
         \<and> 3 * totalVotes rs \<le> 10 * votes L rs
         \<and> (\<forall>v. votes v rs \<le> votes L rs)
         \<and> (\<forall>v. rank v < rank L \<longrightarrow> votes v rs < votes L rs))"
proof -
  define rs where "rs = vibeReportsSince d vid (now - m * 60 * 1000)"
  have sc: "(case v of Dead \<Rightarrow> votes Dead rs | Chill \<Rightarrow> votes Chill rs
             | Busy \<Rightarrow> votes Busy rs | Packed \<Rightarrow> votes Packed rs) = votes v rs" for v
    by (cases v) simp_all
  show ?thesis
    unfolding getConsensus_vibe getConsensus_scores Let_def rs_def [symmetric]
    by (simp only: findConsensus_char sc totalVotes_def)
qed

theorem consensus_first_maximum_witness:
  "consensusVibe (getConsensus packed_db 3600000 1 60) = Some Packed
   \<and> votes Packed (vibeReportsSince packed_db 1 0) = 4
   \<and> totalVotes (vibeReportsSince packed_db 1 0) = 4"
  using consensus_first_maximum [of packed_db 3600000 1 60 Packed]
  by (simp add: all_vibe vibeReportsSince_def packed_db_def empty_db_def vote_def votes_def
      totalVotes_def)

section \<open>Properties of the engine\<close>

subsection \<open>An unknown venue\<close>

text \<open>
  C1, as the claim states it, fails: in a store without venues, \<open>calculate\<close> for venue 7
  returns the default pulse; no not-found error reaches the caller.
\<close>

theorem unknown_venue_counterexample:
  "getVenue empty_db 7 = None
   \<and> fst (calculate quiet_env friday_night empty_db 7) = Inr (getDefaultPulse friday_night)"
  by (simp add: calculate_def calculatePulse_def calculatePulse_try_def getVenue_def
      empty_db_def)

text \<open>
  C1, amended. For every venue id that does not resolve to a venue, the not-found error
  raised in the \<^verbatim>\<open>try\<close> block of \<open>calculate\<close> is caught by its own \<^verbatim>\<open>catch\<close>: the
  error is logged and the caller receives the default score (5.0, confidence 0.3,
  estimated).
\<close>

theorem unknown_venue_default:
  assumes "getVenue d vid = None"
  shows "calculate e clk d vid =
           (Inr (getDefaultPulse clk),
            d\<lparr> console := console d @ [LogCalcError vid (VenueNotFound vid)] \<rparr>)"
  using assms by (simp add: calculate_def calculatePulse_def calculatePulse_try_def)

theorem unknown_venue_default_witness:
  "getVenue packed_db 7 = None
   \<and> fst (calculate quiet_env friday_night packed_db 7)
       = Inr \<lparr> pulse_value = 5, confidence = 3 / 10, dataSource = ESTIMATED,
               lastUpdated = 3600000, breakdown = None \<rparr>"
proof -
  have h: "getVenue packed_db 7 = None"
    by (simp add: getVenue_def packed_db_def empty_db_def corner_bar_def)
  show ?thesis
    using h unknown_venue_default [OF h, of quiet_env friday_night]
    by (simp add: getDefaultPulse_def friday_night_def)
qed

subsection \<open>The sparse path\<close>

lemma crowd_consensus:
  "getConsensus crowd_db 3600000 1 60 =
     \<lparr> vibeReports = 10, consensusVibe = Some Chill,
       vibeScores = [(Dead, 2), (Chill, 3), (Busy, 3), (Packed, 2)],
       averageWaitTime = None, anonymousPings = 0, uniqueDevices = 0,
       socialSignals = 0, dataPoints = 10 \<rparr>"
  by (simp add: consensus_eval crowd_db_def split_db_def empty_db_def vote_def)

lemma crowd_influence:
  "calculateInfluence (getConsensus crowd_db 3600000 1 60) = (6 / 10, 0)"
  unfolding crowd_consensus by (simp add: calculateInfluence_def vibeAdjustment_def)

lemma crowd_google: "googleStep busy_env google_bar = (85 / 10, 6 / 10, GOOGLE, 80)"
  by (simp add: googleStep_def busy_env_def quiet_env_def google_bar_def corner_bar_def
      convertGoogleToSpree_def)

lemma googleStep_cases:
  "googleStep e venue = (5, 5 / 10, ESTIMATED, 0)
   \<or> (\<exists>g. 0 < g \<and> googleStep e venue = (convertGoogleToSpree g, 6 / 10, GOOGLE, g))"
  by (auto simp: googleStep_def split: option.splits)

text \<open>
  C5. On the sparse path, when the consensus has at least 3 data points and the
  influence \<open>w\<close> is positive, the score is computed from the blend
  \<open>base * (1 - w) + (base + adjustment) * w\<close> of the base left by the external
  step, the confidence is raised to \<open>min 0.8 (confidence + 0.3 * w)\<close>, and the source is
  the community exactly when there are at least 10 data points, whatever the external
  step has set.
\<close>

theorem community_blend:
  assumes dp: "3 \<le> dataPoints (getConsensus d (now_ms clk) (venue_id venue) 60)"
      and w: "0 < fst (calculateInfluence (getConsensus d (now_ms clk) (venue_id venue) 60))"
  shows "(case googleStep e venue of (base, conf, src, busy) \<Rightarrow>
           case calculateInfluence (getConsensus d (now_ms clk) (venue_id venue) 60) of
             (w, adjustment) \<Rightarrow>
               pulse_value (calculateNonPartnerPulse e clk d venue)
                 = js_round (min 10 (max 0 (applyTimeModifiers
                      (base * (1 - w) + (base + adjustment) * w)
                      (of_int (now_hours clk)) (of_int (now_day clk)))) * 10) / 10
               \<and> confidence (calculateNonPartnerPulse e clk d venue)
                   = min (8 / 10) (conf + 3 / 10 * w)
               \<and> conf < confidence (calculateNonPartnerPulse e clk d venue)
               \<and> dataSource (calculateNonPartnerPulse e clk d venue)
                   = (if 10 \<le> dataPoints (getConsensus d (now_ms clk) (venue_id venue) 60)
                      then COMMUNITY else src)
               \<and> (dataSource (calculateNonPartnerPulse e clk d venue) = COMMUNITY)
                   = (10 \<le> dataPoints (getConsensus d (now_ms clk) (venue_id venue) 60)))"
proof -
  define cd where "cd = getConsensus d (now_ms clk) (venue_id venue) 60"
  obtain wt adj where inf: "calculateInfluence cd = (wt, adj)"
    by (cases "calculateInfluence cd") auto
  obtain base conf src busy where g: "googleStep e venue = (base, conf, src, busy)"
    by (cases "googleStep e venue") auto
  have wpos: "0 < wt" using w inf by (simp add: cd_def)
  have dp3: "3 \<le> dataPoints cd" using dp by (simp add: cd_def)
  have src: "src \<noteq> COMMUNITY" and conf: "conf \<le> 6 / 10"
    using googleStep_cases [of e venue] g by auto
  have step: "communityStep cd (base, conf, src)
      = (base * (1 - wt) + (base + adj) * wt, min (8 / 10) (conf + wt * (3 / 10)),
         if 10 \<le> dataPoints cd then COMMUNITY else src)"
    using wpos dp3 by (simp add: communityStep_def inf)
  have raise: "conf < min (8 / 10) (conf + wt * (3 / 10))"
    using wpos conf by (simp add: min_def)
  show ?thesis
    unfolding cd_def [symmetric] g inf
    using src raise
    by (simp add: calculateNonPartnerPulse_def g step cd_def [symmetric] Let_def mult.commute)
qed


theorem community_blend_witness:
  "3 \<le> dataPoints (getConsensus crowd_db (now_ms friday_night) (venue_id google_bar) 60)
   \<and> 0 < fst (calculateInfluence
              (getConsensus crowd_db (now_ms friday_night) (venue_id google_bar) 60))
   \<and> googleStep busy_env google_bar = (85 / 10, 6 / 10, GOOGLE, 80)
   \<and> confidence (calculateNonPartnerPulse busy_env friday_night crowd_db google_bar) = 78 / 100
   \<and> dataSource (calculateNonPartnerPulse busy_env friday_night crowd_db google_bar) = COMMUNITY"
proof -
  have t: "now_ms friday_night = 3600000" "venue_id google_bar = 1"
    by (simp_all add: friday_night_def google_bar_def corner_bar_def)
  have h1: "3 \<le> dataPoints (getConsensus crowd_db (now_ms friday_night) (venue_id google_bar) 60)"
    unfolding t crowd_consensus by simp
  have h2: "0 < fst (calculateInfluence
      (getConsensus crowd_db (now_ms friday_night) (venue_id google_bar) 60))"
    unfolding t crowd_influence by simp
  note blend = community_blend [OF h1 h2, of busy_env]
  note blend' = blend [unfolded t crowd_influence crowd_google, unfolded crowd_consensus]
  show ?thesis
    using h1 h2 blend' crowd_google by simp
qed

section \<open>Properties of the batch update\<close>

lemma calculatePulse_fst:
  "fst (calculatePulse e clk d vid) =
     (case fst (calculatePulse_try e clk d vid) of
        Inl err \<Rightarrow> Inr (getDefaultPulse clk)
      | Inr p \<Rightarrow> Inr p)"
  by (cases "calculatePulse_try e clk d vid"; cases "fst (calculatePulse_try e clk d vid)")
     (auto simp: calculatePulse_def)

lemma calculatePulse_Inr:
  "\<exists>p. fst (calculatePulse e clk d vid) = Inr p"
  by (cases "fst (calculatePulse_try e clk d vid)") (simp_all add: calculatePulse_fst)

lemma sameInputs_refl: "sameInputs d d"
  by (simp add: sameInputs_def)

lemma sameInputs_trans: "sameInputs a b \<Longrightarrow> sameInputs b c \<Longrightarrow> sameInputs a c"
  by (simp add: sameInputs_def)

lemma single_map: "map_option f (single xs) = single (map f xs)"
  by (cases xs rule: single.cases) auto

lemma getVenue_key:
  assumes "sameInputs d d'"
  shows "map_option venueKey (getVenue d' vid) = map_option venueKey (getVenue d vid)"
proof -
  have k: "map venueKey (filter (\<lambda>v. venue_id v = vid) xs)
      = filter (\<lambda>k. fst k = vid) (map venueKey xs)" for xs
    by (simp add: filter_map comp_def venueKey_def)
  show ?thesis
    using assms by (simp add: getVenue_def single_map k sameInputs_def)
qed

lemma getConsensus_same:
  "sameInputs d d' \<Longrightarrow> getConsensus d' now vid m = getConsensus d now vid m"
  by (simp add: getConsensus_def vibeReportsSince_def pingsSince_def signalsSince_def
      sameInputs_def)

lemma calculateSpreePulse_fst:
  "venue_id v' = venue_id v \<Longrightarrow>
   fst (calculateSpreePulse e clk d' v') = fst (calculateSpreePulse e clk d v)"
  by (simp add: calculateSpreePulse_def Let_def split: sum.splits)

lemma calculateNonPartnerPulse_same:
  assumes "venueKey v' = venueKey v" and "sameInputs d d'"
  shows "calculateNonPartnerPulse e clk d' v' = calculateNonPartnerPulse e clk d v"
proof -
  have g: "googleStep e v' = googleStep e v"
    using assms(1) by (simp add: googleStep_def venueKey_def)
  have i: "venue_id v' = venue_id v" using assms(1) by (simp add: venueKey_def)
  show ?thesis
    by (simp add: calculateNonPartnerPulse_def g i getConsensus_same [OF assms(2)])
qed

lemma calculatePulse_try_same:
  assumes "sameInputs d d'"
  shows "fst (calculatePulse_try e clk d' vid) = fst (calculatePulse_try e clk d vid)"
proof (cases "getVenue d vid")
  case None
  then have "getVenue d' vid = None"
    using getVenue_key [OF assms, of vid] by simp
  then show ?thesis using None by (simp add: calculatePulse_try_def)
next
  case (Some v)
  then obtain v' where v': "getVenue d' vid = Some v'" and k: "venueKey v' = venueKey v"
    using getVenue_key [OF assms, of vid] by auto
  have i: "venue_id v' = venue_id v" and o: "spree_onboarded v' = spree_onboarded v"
    using k by (simp_all add: venueKey_def)
  show ?thesis
    by (simp add: calculatePulse_try_def Some v' o calculateSpreePulse_fst [OF i]
        calculateNonPartnerPulse_same [OF k assms])
qed

lemma calculatePulse_same:
  "sameInputs d d' \<Longrightarrow> fst (calculatePulse e clk d' vid) = fst (calculatePulse e clk d vid)"
  by (simp add: calculatePulse_fst calculatePulse_try_same)

lemma calculateSpreePulse_store:
  "sameInputs d (snd (calculateSpreePulse e clk d venue))
   \<and> filter isProgress (console (snd (calculateSpreePulse e clk d venue)))
       = filter isProgress (console d)"
  by (simp add: calculateSpreePulse_def logCalculation_def Let_def sameInputs_def
      split: sum.splits)

lemma calculatePulse_try_store:
  "sameInputs d (snd (calculatePulse_try e clk d vid))
   \<and> filter isProgress (console (snd (calculatePulse_try e clk d vid)))
       = filter isProgress (console d)"
  by (simp add: calculatePulse_try_def calculateSpreePulse_store sameInputs_refl
      split: option.splits)

lemma calculatePulse_store:
  "sameInputs d (snd (calculatePulse e clk d vid))
   \<and> filter isProgress (console (snd (calculatePulse e clk d vid)))
       = filter isProgress (console d)"
proof -
  obtain r d' where t: "calculatePulse_try e clk d vid = (r, d')"
    by (cases "calculatePulse_try e clk d vid") auto
  have "sameInputs d d' \<and> filter isProgress (console d') = filter isProgress (console d)"
    using calculatePulse_try_store [of d e clk vid] t by simp
  then show ?thesis
    by (cases r) (simp_all add: calculatePulse_def t sameInputs_def)
qed

lemma persistPulse_store:
  "sameInputs d (persistPulse vid p d) \<and> console (persistPulse vid p d) = console d"
proof -
  have "venueKey \<circ> (\<lambda>v. if venue_id v = vid
        then v\<lparr> pulse := pulse_value p, pulse_confidence := Some (confidence p),
                pulse_data_source := Some (dataSource p),
                pulse_updated_at := Some (lastUpdated p) \<rparr> else v) = venueKey"
    by (auto simp: fun_eq_iff venueKey_def)
  then show ?thesis by (simp add: persistPulse_def sameInputs_def)
qed

lemma appendHistory_store:
  "sameInputs d (appendHistory vid p d) \<and> console (appendHistory vid p d) = console d"
  by (simp add: appendHistory_def sameInputs_def)

lemma updateTask_result:
  assumes "sameInputs d0 d"
  shows "fst (updateTask e clk d venue) = evaluated e clk d0 venue
       \<and> sameInputs d0 (snd (updateTask e clk d venue))
       \<and> filter isProgress (console (snd (updateTask e clk d venue)))
           = filter isProgress (console d)"
proof -
  obtain r d1 where c: "calculatePulse e clk d (venue_id venue) = (r, d1)"
    by (cases "calculatePulse e clk d (venue_id venue)") auto
  obtain p where r: "r = Inr p"
    using calculatePulse_Inr [of e clk d "venue_id venue"] c by auto
  have same: "fst (calculatePulse e clk d0 (venue_id venue)) = Inr p"
    using calculatePulse_same [OF assms, of e clk "venue_id venue"] c r by simp
  have st: "sameInputs d d1" "filter isProgress (console d1) = filter isProgress (console d)"
    using calculatePulse_store [of d e clk "venue_id venue"] c by simp_all
  define d2 where "d2 = (if venue_update_fails e (venue_id venue) then d1
      else persistPulse (venue_id venue) p d1)"
  define d3 where "d3 = (if history_insert_fails e (venue_id venue) then d2
      else appendHistory (venue_id venue) p d2)"
  have s2: "sameInputs d1 d2" and c2: "console d2 = console d1"
    using persistPulse_store [of d1 "venue_id venue" p]
    by (simp_all add: d2_def sameInputs_refl)
  have s3: "sameInputs d2 d3" and c3: "console d3 = console d2"
    using appendHistory_store [of d2 "venue_id venue" p]
    by (simp_all add: d3_def sameInputs_refl)
  have s: "sameInputs d0 d3"
    using assms st(1) s2 s3 by (blast intro: sameInputs_trans)
  have u: "updateTask e clk d venue =
      (\<lparr> success = True, ur_venueId = venue_id venue, ur_name = venue_name venue,
         ur_pulse = pulse_value p, ur_dataSource = dataSource p \<rparr>, d3)"
    by (simp add: updateTask_def c r Let_def d2_def d3_def)
  show ?thesis
    using s by (simp add: u evaluated_def same c3 c2 st(2))
qed

lemma processBatch_result:
  assumes "sameInputs d0 d"
  shows "fst (processBatch e clk d batch) = map (evaluated e clk d0) batch
       \<and> sameInputs d0 (snd (processBatch e clk d batch))
       \<and> filter isProgress (console (snd (processBatch e clk d batch)))
           = filter isProgress (console d)"
  using assms
proof (induction batch arbitrary: d)
  case Nil
  then show ?case by simp
next
  case (Cons venue rest)
  obtain r d1 where u: "updateTask e clk d venue = (r, d1)"
    by (cases "updateTask e clk d venue") auto
  obtain rs d2 where p: "processBatch e clk d1 rest = (rs, d2)"
    by (cases "processBatch e clk d1 rest") auto
  from updateTask_result [OF Cons.prems, of e clk venue] u
  have r: "r = evaluated e clk d0 venue" and s1: "sameInputs d0 d1"
    and c1: "filter isProgress (console d1) = filter isProgress (console d)"
    by simp_all
  from Cons.IH [OF s1] p
  have rs: "rs = map (evaluated e clk d0) rest" and s2: "sameInputs d0 d2"
    and c2: "filter isProgress (console d2) = filter isProgress (console d1)"
    by simp_all
  show ?case by (simp add: u p r rs s2 c1 c2)
qed

lemma batchLoop_step:
  "i < length vs \<Longrightarrow>
   batchLoop e clk vs i (results, d) =
     (case processBatch e clk d (slice vs i (i + batchSize)) of
        (batchResults, d1) \<Rightarrow>
          batchLoop e clk vs (i + batchSize)
            (results @ batchResults,
             d1\<lparr> console := console d1 @
                  [LogProgress (min (i + batchSize) (length vs)) (length vs)] \<rparr>))"
  by (subst batchLoop.simps) simp

lemma batchLoop_stop: "\<not> i < length vs \<Longrightarrow> batchLoop e clk vs i st = st"
  by (subst batchLoop.simps) simp

lemma slice_drop: "slice vs i (i + n) @ drop (i + n) vs = drop i vs"
  by (simp add: slice_def add.commute [of i n] drop_drop [symmetric] del: drop_drop)

lemma chunks_step:
  fixes i n :: nat
  assumes "i < n"
  shows "1 + (n - (i + 10) + 9) div 10 = (n - i + 9) div 10"
proof (cases "i + 10 \<le> n")
  case True
  then obtain k where k: "n = i + 10 + k" using le_Suc_ex by blast
  show ?thesis unfolding k by simp
next
  case False
  then obtain k where k: "n = i + k" and k1: "0 < k" and k2: "k < 10"
    using assms by (metis less_imp_add_positive nat_add_left_cancel_less not_le_imp_less)
  have "(k + 9) div 10 = 1" using k1 k2 by simp
  then show ?thesis unfolding k using k2 by simp
qed

lemma batchLoop_result:
  "sameInputs d0 d \<Longrightarrow>
   fst (batchLoop e clk vs i (results, d)) = results @ map (evaluated e clk d0) (drop i vs)
   \<and> length (filter isProgress (console (snd (batchLoop e clk vs i (results, d)))))
     = length (filter isProgress (console d)) + (length vs - i + 9) div 10"
proof (induction e clk vs i "(results, d)" arbitrary: results d rule: batchLoop.induct)
  case (1 e clk vs i)
  show ?case
  proof (cases "i < length vs")
    case False
    then show ?thesis by (simp add: batchLoop_stop)
  next
    case True
    obtain rs d1 where p: "processBatch e clk d (slice vs i (i + batchSize)) = (rs, d1)"
      by (cases "processBatch e clk d (slice vs i (i + batchSize))") auto
    define d2 where "d2 = d1\<lparr> console := console d1 @
        [LogProgress (min (i + batchSize) (length vs)) (length vs)] \<rparr>"
    from processBatch_result [OF "1.prems", of e clk "slice vs i (i + batchSize)"] p
    have rs: "rs = map (evaluated e clk d0) (slice vs i (i + batchSize))"
      and s1: "sameInputs d0 d1"
      and c1: "filter isProgress (console d1) = filter isProgress (console d)"
      by simp_all
    have s2: "sameInputs d0 d2" using s1 by (simp add: d2_def sameInputs_def)
    have step: "batchLoop e clk vs i (results, d)
        = batchLoop e clk vs (i + batchSize) (results @ rs, d2)"
      using True by (simp add: batchLoop_step p d2_def)
    have IH: "fst (batchLoop e clk vs (i + batchSize) (results @ rs, d2))
        = (results @ rs) @ map (evaluated e clk d0) (drop (i + batchSize) vs)
      \<and> length (filter isProgress
           (console (snd (batchLoop e clk vs (i + batchSize) (results @ rs, d2)))))
        = length (filter isProgress (console d2)) + (length vs - (i + batchSize) + 9) div 10"
      using "1.hyps" [OF True refl p [symmetric]] s2 by (simp add: d2_def)
    have cnt: "length (filter isProgress (console d2))
        = length (filter isProgress (console d)) + 1"
      by (simp add: d2_def c1)
    have ar: "1 + (length vs - (i + batchSize) + 9) div 10 = (length vs - i + 9) div 10"
      unfolding batchSize_def by (rule chunks_step [OF True])
    have split: "map (evaluated e clk d0) (drop i vs)
        = map (evaluated e clk d0) (slice vs i (i + batchSize))
          @ map (evaluated e clk d0) (drop (i + batchSize) vs)"
      by (simp only: map_append [symmetric] slice_drop)
    have lists: "(results @ rs) @ map (evaluated e clk d0) (drop (i + batchSize) vs)
        = results @ map (evaluated e clk d0) (drop i vs)"
      by (simp only: split rs append_assoc)
    from IH have a: "fst (batchLoop e clk vs i (results, d))
        = results @ map (evaluated e clk d0) (drop i vs)"
      by (simp only: step lists)
    from IH have b: "length (filter isProgress (console (snd (batchLoop e clk vs i (results, d)))))
        = length (filter isProgress (console d)) + (length vs - i + 9) div 10"
      by (simp only: step cnt ar [symmetric] add.assoc)
    from a b show ?thesis by (rule conjI)
  qed
qed

lemma allResults_result:
  "fst (allResults e clk d) = map (evaluated e clk d) (activeVenues d)
   \<and> length (filter isProgress (console (snd (allResults e clk d))))
       = length (filter isProgress (console d)) + (length (activeVenues d) + 9) div 10"
proof -
  define d' where "d' = d\<lparr> console := console d @ [LogBatchStart, LogFound (length (activeVenues d))] \<rparr>"
  have s: "sameInputs d d'" by (simp add: d'_def sameInputs_def)
  have a: "activeVenues d' = activeVenues d" by (simp add: d'_def activeVenues_def)
  show ?thesis
    using batchLoop_result [OF s, of e clk "activeVenues d" 0 "[]"]
    by (simp add: allResults_def Let_def d'_def)
qed

lemma evaluated_success:
  "success (evaluated e clk d venue) \<and> ur_venueId (evaluated e clk d venue) = venue_id venue"
proof -
  obtain p where "fst (calculatePulse e clk d (venue_id venue)) = Inr p"
    using calculatePulse_Inr by blast
  then show ?thesis by (simp add: evaluated_def)
qed



lemma updateAllVenues_nonempty:
  assumes "activeVenues d \<noteq> []"
  shows "failed (fst (updateAllVenues e clk d))
           = length (filter (\<lambda>r. \<not> success r) (fst (allResults e clk d)))"
    and "updated (fst (updateAllVenues e clk d))
           = length (filter success (fst (allResults e clk d)))"
    and "total (fst (updateAllVenues e clk d)) = length (activeVenues d)"
    and "hotVenues (fst (updateAllVenues e clk d))
           = sort_key (\<lambda>h. - hv_pulse h)
               (map toHot (filter (\<lambda>r. success r \<and> ur_pulse r \<ge> 7) (fst (allResults e clk d))))"
    and "filter isProgress (console (snd (updateAllVenues e clk d)))
           = filter isProgress (console (snd (allResults e clk d)))"
  using assms
  by (simp_all add: updateAllVenues_def Let_def split_def comp_def)




lemma crowd_venues: "length (activeVenues crowd_db) = 1"
  by code_simp

lemma crowd_hot:
  "hotVenues (fst (updateAll busy_env friday_night crowd_db))
     = [\<lparr> hv_id = 1, hv_name = ''Corner Bar'', hv_pulse = 98 / 10 \<rparr>]"
  by code_simp





text \<open>
  C9. Every result of \<open>updateAll\<close> has \<open>total = updated + failed\<close>: the results hold
  one row for each active venue, in order, and each row is either a success or a
  failure. Every entry of the hot list comes from a successful row with a pulse of at
  least 7.
\<close>

theorem batch_counts_partition:
  "total (fst (updateAll e clk d))
     = updated (fst (updateAll e clk d)) + failed (fst (updateAll e clk d))
   \<and> total (fst (updateAll e clk d)) = length (activeVenues d)
   \<and> map ur_venueId (fst (allResults e clk d)) = map venue_id (activeVenues d)
   \<and> (\<forall>h \<in> set (hotVenues (fst (updateAll e clk d))).
        \<exists>r \<in> set (fst (allResults e clk d)). success r \<and> 7 \<le> ur_pulse r \<and> h = toHot r)"
proof (cases "activeVenues d = []")
  case True
  have "fst (allResults e clk d) = []"
    using allResults_result [of e clk d] True by simp
  then show ?thesis using True
    by (simp add: updateAll_def updateAllVenues_def)
next
  case False
  from allResults_result [of e clk d]
  have res: "fst (allResults e clk d) = map (evaluated e clk d) (activeVenues d)"
    by simp
  have len: "length (fst (allResults e clk d)) = length (activeVenues d)"
    by (simp add: res)
  have ids: "map ur_venueId (fst (allResults e clk d)) = map venue_id (activeVenues d)"
    by (simp add: res comp_def evaluated_success)
  have part: "length (filter success (fst (allResults e clk d)))
      + length (filter (\<lambda>r. \<not> success r) (fst (allResults e clk d)))
      = length (fst (allResults e clk d))"
    by (rule sum_length_filter_compl)
  have hot: "\<forall>h \<in> set (hotVenues (fst (updateAll e clk d))).
        \<exists>r \<in> set (fst (allResults e clk d)). success r \<and> 7 \<le> ur_pulse r \<and> h = toHot r"
    by (auto simp: updateAll_def updateAllVenues_nonempty(4) [OF False])
  show ?thesis
    using part len ids hot
    by (simp add: updateAll_def updateAllVenues_nonempty(1,2,3) [OF False])
qed

theorem batch_counts_partition_witness:
  "total (fst (updateAll busy_env friday_night crowd_db)) = 1
   \<and> updated (fst (updateAll busy_env friday_night crowd_db))
       + failed (fst (updateAll busy_env friday_night crowd_db)) = 1
   \<and> hotVenues (fst (updateAll busy_env friday_night crowd_db))
       = [\<lparr> hv_id = 1, hv_name = ''Corner Bar'', hv_pulse = 98 / 10 \<rparr>]"
  using batch_counts_partition [of busy_env friday_night crowd_db]
  by (simp add: crowd_venues crowd_hot)

end
